theory Spec2Isabelle
  imports Main "HOL-Library.Sublist"
begin

section \<open>Python values\<close>

text \<open>
  The values that travel from the JSON feed through the snapshot dict into the SQLite
  rows: \<open>None\<close> (JSON null, SQL NULL), integers and strings. Floats, booleans, lists
  and nested objects of the feed are outside this model. A value is stored in a column
  as it was bound; the conversions SQLite applies when a text is bound to an INTEGER
  column (or an integer to a TEXT column) are not modelled. Python strings are taken as
  their UTF-8 bytes, which keeps equality, concatenation and the substring test.
\<close>

datatype pyval = PNone | PInt int | PStr string

datatype error = KeyError string | TypeError | OverflowError

text \<open>Truthiness, as used by \<open>row[1] if row[1] else 0\<close>.\<close>

fun truthy :: "pyval \<Rightarrow> bool" where
  "truthy PNone = False"
| "truthy (PInt n) = (n \<noteq> 0)"
| "truthy (PStr s) = (s \<noteq> [])"

text \<open>Python orders strings lexicographically by code point.\<close>

fun str_lt :: "string \<Rightarrow> string \<Rightarrow> bool" where
  "str_lt [] [] = False"
| "str_lt [] (y # ys) = True"
| "str_lt (x # xs) [] = False"
| "str_lt (x # xs) (y # ys) =
     (if (of_char x :: nat) < of_char y then True
      else if x = y then str_lt xs ys else False)"

text \<open>
  \<open>a > b\<close>: defined between two integers and between two strings; every other
  combination (in particular anything involving \<open>None\<close>) raises TypeError.
\<close>

fun py_gt :: "pyval \<Rightarrow> pyval \<Rightarrow> error + bool" where
  "py_gt (PInt a) (PInt b) = Inr (a > b)"
| "py_gt (PStr a) (PStr b) = Inr (str_lt b a)"
| "py_gt _ _ = Inl TypeError"

text \<open>
  Binding a parameter of an SQL statement: \<open>sqlite3\<close> raises \<open>OverflowError\<close> for a Python
  int outside the signed 64-bit range, before the statement is run. \<open>None\<close> and strings
  are bound as they are.
\<close>

definition fits_int64 :: "int \<Rightarrow> bool" where
  "fits_int64 n = (- (2 ^ 63) \<le> n \<and> n < 2 ^ 63)"

fun bindable :: "pyval \<Rightarrow> bool" where
  "bindable (PInt n) = fits_int64 n"
| "bindable PNone = True"
| "bindable (PStr s) = True"

section \<open>The catalog: tables \<open>talks\<close> and \<open>files\<close>\<close>

text \<open>
  \<open>talks\<close> has \<open>id INTEGER PRIMARY KEY\<close>, so it holds at most one row per id: a map
  from the id to the other ten columns. \<open>files\<close> has only its surrogate key, so it is
  a list of rows in insertion order, duplicates possible as far as the schema goes.
\<close>

record talk_row =
  r_guid :: pyval
  r_title :: pyval
  r_room :: pyval
  r_status :: pyval
  r_start :: pyval
  r_duration :: pyval
  r_release_url :: pyval
  r_authors :: pyval
  r_description :: pyval
  r_last_mtime :: pyval

record file_row =
  f_id :: int
  f_talk_id :: int
  f_file_type :: string
  f_file_url :: string
  f_local_path :: string

record catalog =
  talks :: "int \<rightharpoonup> talk_row"
  files :: "file_row list"

text \<open>
  \<open>init_db\<close>: \<open>CREATE TABLE IF NOT EXISTS\<close> on the database file. A file that does not
  exist yet (\<open>None\<close>) gets two empty tables, an existing one is left as it is.
\<close>

definition init_db :: "catalog option \<Rightarrow> catalog" where
  "init_db db_file =
     (case db_file of
        None \<Rightarrow> \<lparr>talks = Map.empty, files = []\<rparr>
      | Some conn \<Rightarrow> conn)"

subsection \<open>\<open>upsert_talk\<close>\<close>

text \<open>
  The snapshot dict \<open>talk_data\<close>. Its key \<open>id\<close> is an int by the docstring (and
  \<open>main\<close> builds it with \<open>int(entry["id"])\<close>), so it is a typed field; all other keys
  are looked up in the dict \<open>td_dict\<close>, where a key may be absent.
\<close>

record talk_data =
  td_id :: int
  td_dict :: "string \<rightharpoonup> pyval"

text \<open>\<open>d.get(k)\<close> and \<open>d.get(k, default)\<close>.\<close>

definition dict_get :: "(string \<rightharpoonup> pyval) \<Rightarrow> string \<Rightarrow> pyval" where
  "dict_get d k = (case d k of None \<Rightarrow> PNone | Some v \<Rightarrow> v)"

definition dict_get_default :: "(string \<rightharpoonup> pyval) \<Rightarrow> string \<Rightarrow> pyval \<Rightarrow> pyval" where
  "dict_get_default d k dflt = (case d k of None \<Rightarrow> dflt | Some v \<Rightarrow> v)"

text \<open>
  The result is the exception that left the function (if any) and the catalog
  afterwards. Every exception is raised before a write: \<open>OverflowError\<close> when the id
  is bound to the SELECT or a value to the INSERT or UPDATE, \<open>KeyError\<close> and
  \<open>TypeError\<close> in the comparison of line 135. So the catalog an exception leaves behind
  is the one the call found.
\<close>

definition upsert_talk :: "catalog \<Rightarrow> talk_data \<Rightarrow> error option \<times> catalog" where
  "upsert_talk conn talk_data =
     (let d = td_dict talk_data in
      if \<not> fits_int64 (td_id talk_data) then (Some OverflowError, conn)
      else
        case talks conn (td_id talk_data) of
          None \<Rightarrow>
            if list_all bindable
                 [dict_get d ''guid'', dict_get d ''title'', dict_get d ''room'',
                  dict_get d ''status'', dict_get d ''start'', dict_get d ''duration'',
                  dict_get d ''release_url'', dict_get_default d ''mtime'' (PInt 0)]
            then
              (None, conn\<lparr>talks := (talks conn)(td_id talk_data \<mapsto>
                 \<lparr>r_guid = dict_get d ''guid'',
                  r_title = dict_get d ''title'',
                  r_room = dict_get d ''room'',
                  r_status = dict_get d ''status'',
                  r_start = dict_get d ''start'',
                  r_duration = dict_get d ''duration'',
                  r_release_url = dict_get d ''release_url'',
                  r_authors = PNone,
                  r_description = PNone,
                  r_last_mtime = dict_get_default d ''mtime'' (PInt 0)\<rparr>)\<rparr>)
            else (Some OverflowError, conn)
        | Some row \<Rightarrow>
            (let existing_mtime = (if truthy (r_last_mtime row) then r_last_mtime row else PInt 0) in
             case d ''mtime'' of
               None \<Rightarrow> (Some (KeyError ''mtime''), conn)
             | Some mtime \<Rightarrow>
                 (case py_gt mtime existing_mtime of
                    Inl e \<Rightarrow> (Some e, conn)
                  | Inr newer \<Rightarrow>
                      if newer then
                        if list_all bindable
                             [dict_get d ''guid'', dict_get d ''title'', dict_get d ''room'',
                              dict_get d ''status'', dict_get d ''start'', dict_get d ''duration'',
                              dict_get d ''release_url'', dict_get d ''mtime'']
                        then
                          (None, conn\<lparr>talks := (talks conn)(td_id talk_data \<mapsto>
                             row\<lparr>r_guid := dict_get d ''guid'',
                                 r_title := dict_get d ''title'',
                                 r_room := dict_get d ''room'',
                                 r_status := dict_get d ''status'',
                                 r_start := dict_get d ''start'',
                                 r_duration := dict_get d ''duration'',
                                 r_release_url := dict_get d ''release_url'',
                                 r_last_mtime := dict_get d ''mtime''\<rparr>)\<rparr>)
                        else (Some OverflowError, conn)
                      else (None, conn))))"

subsection \<open>\<open>insert_or_ignore_file\<close>\<close>

text \<open>
  \<open>id INTEGER PRIMARY KEY AUTOINCREMENT\<close>: a new row gets an id above every id used so
  far. Rows of \<open>files\<close> are never deleted, so that is one more than the largest id in
  the table (1 in an empty table).
\<close>

definition next_file_id :: "file_row list \<Rightarrow> int" where
  "next_file_id rows = fold max (map f_id rows) 0 + 1"

text \<open>
  The SELECT looks for a row with the same \<open>talk_id\<close>, \<open>file_type\<close> and \<open>file_url\<close>;
  \<open>fetchone\<close> gives the first one or \<open>None\<close>. The arguments are an int and strings, as
  the docstring says and as every call in \<open>main\<close> passes them (\<open>str(local_path)\<close> is the
  path as a string); \<open>main\<close> calls it with the id of a talk only after \<open>upsert_talk\<close> has
  returned for that id, so the id fits 64 bits.
\<close>

definition insert_or_ignore_file ::
  "catalog \<Rightarrow> int \<Rightarrow> string \<Rightarrow> string \<Rightarrow> string \<Rightarrow> catalog" where
  "insert_or_ignore_file conn talk_id file_type file_url local_path =
     (case find (\<lambda>r. f_talk_id r = talk_id \<and> f_file_type r = file_type \<and> f_file_url r = file_url)
             (files conn) of
        None \<Rightarrow>
          conn\<lparr>files := files conn @
            [\<lparr>f_id = next_file_id (files conn), f_talk_id = talk_id, f_file_type = file_type,
              f_file_url = file_url, f_local_path = local_path\<rparr>]\<rparr>
      | Some row \<Rightarrow> conn)"

text \<open>A sequence of calls, each given by its four arguments, run one after the other.\<close>

fun insert_or_ignore_files ::
  "catalog \<Rightarrow> (int \<times> string \<times> string \<times> string) list \<Rightarrow> catalog" where
  "insert_or_ignore_files conn [] = conn"
| "insert_or_ignore_files conn ((talk_id, file_type, file_url, local_path) # calls) =
     insert_or_ignore_files (insert_or_ignore_file conn talk_id file_type file_url local_path) calls"

text \<open>The triple that is meant to identify a row of \<open>files\<close>.\<close>

definition file_key :: "file_row \<Rightarrow> int \<times> string \<times> string" where
  "file_key r = (f_talk_id r, f_file_type r, f_file_url r)"

section \<open>Strings\<close>

text \<open>
  \<open>needle in haystack\<close> on Python strings: the needle occurs as a contiguous piece.
\<close>

fun py_in :: "string \<Rightarrow> string \<Rightarrow> bool" where
  "py_in needle [] = (needle = [])"
| "py_in needle (c # cs) = (prefix needle (c # cs) \<or> py_in needle cs)"

definition endswith :: "string \<Rightarrow> string \<Rightarrow> bool" where
  "endswith s suff = (length suff \<le> length s \<and> drop (length s - length suff) s = suff)"

text \<open>
  \<open>str.lower()\<close> is a function of Python, aware of all of Unicode; the functions that
  call it take it as the parameter \<open>lower\<close>. On text of ASCII characters it is
  \<open>ascii_lower\<close>, which turns the letters A to Z into a to z and leaves every other
  character as it is.
\<close>

definition ascii_lower_char :: "char \<Rightarrow> char" where
  "ascii_lower_char c =
     (case map_of (zip ''ABCDEFGHIJKLMNOPQRSTUVWXYZ'' ''abcdefghijklmnopqrstuvwxyz'') c of
        None \<Rightarrow> c
      | Some l \<Rightarrow> l)"

definition ascii_lower :: "string \<Rightarrow> string" where
  "ascii_lower s = map ascii_lower_char s"

text \<open>\<open>sep.join(parts)\<close>.\<close>

fun join :: "string \<Rightarrow> string list \<Rightarrow> string" where
  "join sep [] = []"
| "join sep [x] = x"
| "join sep (x # y # ys) = x @ sep @ join sep (y # ys)"

section \<open>Download\<close>

text \<open>
  The local file system as far as \<open>download_file\<close> sees it: which paths hold a regular
  file, and its bytes. Directories (\<open>mkdir\<close> of the parent) and the failures of the file
  system itself (\<open>OSError\<close>, which \<open>download_file\<close> does not catch) are not modelled.
\<close>

type_synonym filesystem = "string \<rightharpoonup> string"

text \<open>
  What the network answers. A \<open>Content-Length\<close> header is given by what \<open>int(...)\<close> makes
  of its text: the integer, or ValueError. The HEAD request either raises a
  \<open>RequestException\<close> or gives a response with its \<open>ok\<close> flag and the header, if there is
  one. The GET request either raises a \<open>RequestException\<close> before there is a response
  (connection failure, timeout), or gives a response: whether its status is a success
  (\<open>raise_for_status\<close> raises \<open>HTTPError\<close>, a \<open>RequestException\<close>, otherwise), the chunks
  \<open>iter_content\<close> yields, and whether the stream then ends normally (\<open>True\<close>) or with a
  \<open>RequestException\<close> (connection reset, read timeout).
\<close>

datatype header_value = IntText int | NotIntText

datatype head_outcome = HeadRaises | HeadResponse bool "header_value option"

datatype get_outcome = GetRaises | GetResponse bool "string list" bool

record network =
  net_head :: "string \<Rightarrow> head_outcome"
  net_get :: "string \<Rightarrow> get_outcome"

datatype http_request = HEAD string | GET string

datatype message =
  MsgAlreadyComplete | MsgReload | MsgDownloading | MsgSizeWarning | MsgSuccess | MsgError

record download_result =
  dl_ok :: bool
  dl_fs :: filesystem
  dl_requests :: "http_request list"
  dl_printed :: "message list"

text \<open>Lines 197 to 209: the optional size probe.\<close>

definition probe_expected_size :: "head_outcome \<Rightarrow> int option" where
  "probe_expected_size head_resp =
     (case head_resp of
        HeadRaises \<Rightarrow> None
      | HeadResponse ok content_length \<Rightarrow>
          if ok then
            (case content_length of
               None \<Rightarrow> None
             | Some (IntText n) \<Rightarrow> Some n
             | Some NotIntText \<Rightarrow> None)
          else None)"

text \<open>\<open>if expected_size and ...\<close>: \<open>None\<close> and \<open>0\<close> are both false.\<close>

definition size_truthy :: "int option \<Rightarrow> bool" where
  "size_truthy expected_size = (case expected_size of None \<Rightarrow> False | Some n \<Rightarrow> n \<noteq> 0)"

text \<open>The loop over the chunks: empty chunks are skipped, the others appended to the file.\<close>

fun write_chunks :: "string \<Rightarrow> string list \<Rightarrow> string" where
  "write_chunks f [] = f"
| "write_chunks f (chunk # chunks) =
     (if chunk = [] then write_chunks f chunks else write_chunks (f @ chunk) chunks)"

text \<open>\<open>if dest_path.exists(): dest_path.unlink()\<close>.\<close>

definition unlink_if_exists :: "filesystem \<Rightarrow> string \<Rightarrow> filesystem" where
  "unlink_if_exists fs path = (if fs path \<noteq> None then fs(path := None) else fs)"

text \<open>
  \<open>download_file\<close>. The result holds the return value, the file system afterwards, the
  requests sent and the messages printed, in order. \<open>open(dest_path, 'wb')\<close> creates the
  file empty before the first chunk arrives, and a stream that breaks has written the
  chunks it delivered; the handler then deletes the file.
\<close>

definition download_file :: "network \<Rightarrow> filesystem \<Rightarrow> string \<Rightarrow> string \<Rightarrow> download_result" where
  "download_file net fs url dest_path =
     (let expected_size = probe_expected_size (net_head net url) in
      if size_truthy expected_size \<and>
         (case fs dest_path of
            None \<Rightarrow> False
          | Some content \<Rightarrow> Some (int (length content)) = expected_size)
      then \<lparr>dl_ok = True, dl_fs = fs, dl_requests = [HEAD url],
            dl_printed = [MsgAlreadyComplete]\<rparr>
      else
        (let fs1 = unlink_if_exists fs dest_path;
             printed = (if fs dest_path \<noteq> None then [MsgReload] else []) @ [MsgDownloading];
             failed = (\<lambda>fs'. \<lparr>dl_ok = False, dl_fs = unlink_if_exists fs' dest_path,
                               dl_requests = [HEAD url, GET url],
                               dl_printed = printed @ [MsgError]\<rparr>)
         in case net_get net url of
              GetRaises \<Rightarrow> failed fs1
            | GetResponse status_ok chunks completes \<Rightarrow>
                if \<not> status_ok then failed fs1
                else
                  (let content = write_chunks [] chunks;
                       fs2 = fs1(dest_path \<mapsto> content)
                   in if \<not> completes then failed fs2
                      else
                        \<lparr>dl_ok = True, dl_fs = fs2, dl_requests = [HEAD url, GET url],
                         dl_printed = printed @
                           [if size_truthy expected_size \<and> Some (int (length content)) \<noteq> expected_size
                            then MsgSizeWarning else MsgSuccess]\<rparr>)))"

section \<open>Scraping\<close>

text \<open>
  A page fetched with \<open>requests.get\<close> and \<open>raise_for_status\<close>: either a
  \<open>RequestException\<close> (connection failure, timeout, non-success status) or the document.
  The documents are given by what the BeautifulSoup queries of the code find in them.
\<close>

datatype 'a response = RequestException | Response 'a

subsection \<open>\<open>parse_release_page\<close>\<close>

text \<open>
  An \<open>a\<close> element: \<open>a.get('href')\<close> and \<open>a.get('class', [])\<close>, the class attribute
  split at white space. The release page: the link texts in the first \<open>p\<close> of class
  \<open>persons\<close> (if there is one), the text of the first \<open>p\<close> of class \<open>description\<close> (if
  there is one), and all \<open>a\<close> elements in document order.
\<close>

record anchor =
  a_href :: "string option"
  a_class :: "string list"

record release_page =
  persons_p :: "string list option"
  description_p :: "string option"
  a_tags :: "anchor list"

record extra_info =
  authors :: string
  description :: string
  video_hd_url :: "string option"
  audio_urls :: "(string \<times> string) list"

text \<open>
  How BeautifulSoup matches the string given as \<open>class_\<close> against an element: one
  of the class tokens is that string, or the tokens joined by single spaces are that string.
\<close>

definition class_matches :: "string \<Rightarrow> string list \<Rightarrow> bool" where
  "class_matches wanted classes = (wanted \<in> set classes \<or> join '' '' classes = wanted)"

text \<open>\<open>soup.find_all('a', class_='btn btn-default download audio')\<close>.\<close>

definition audio_btns :: "release_page \<Rightarrow> anchor list" where
  "audio_btns soup =
     filter (\<lambda>a. class_matches ''btn btn-default download audio'' (a_class a)) (a_tags soup)"

text \<open>The filter of the HD link: \<open>x and "h264-hd" in x and x.endswith(".mp4")\<close>.\<close>

definition hd_href :: "string option \<Rightarrow> bool" where
  "hd_href x =
     (case x of
        None \<Rightarrow> False
      | Some h \<Rightarrow> h \<noteq> [] \<and> py_in ''h264-hd'' h \<and> endswith h ''.mp4'')"

text \<open>The loop over the class tokens: every known code overwrites the one before.\<close>

fun language_loop :: "string option \<Rightarrow> string list \<Rightarrow> string option" where
  "language_loop language [] = language"
| "language_loop language (c # classes) =
     language_loop (if c \<in> set [''deu'', ''eng'', ''fra''] then Some c else language) classes"

text \<open>How an f-string prints the language: \<open>None\<close> prints as the word None.\<close>

definition format_language :: "string option \<Rightarrow> string" where
  "format_language language = (case language of None \<Rightarrow> ''None'' | Some c \<Rightarrow> c)"

definition audio_filetype :: "string option \<Rightarrow> string \<Rightarrow> string" where
  "audio_filetype language href =
     (if py_in ''.mp3'' href then ''audio_'' @ format_language language @ ''_mp3''
      else if py_in ''.opus'' href then ''audio_'' @ format_language language @ ''_opus''
      else ''audio_'' @ format_language language @ ''_other'')"

fun audio_loop :: "(string \<times> string) list \<Rightarrow> anchor list \<Rightarrow> (string \<times> string) list" where
  "audio_loop result [] = result"
| "audio_loop result (a # btns) =
     (case a_href a of
        None \<Rightarrow> audio_loop result btns
      | Some href \<Rightarrow>
          if href = [] then audio_loop result btns
          else audio_loop
                 (result @ [(audio_filetype (language_loop None (a_class a)) href, href)]) btns)"

definition parse_release_page :: "release_page response \<Rightarrow> extra_info" where
  "parse_release_page resp =
     (case resp of
        RequestException \<Rightarrow>
          \<lparr>authors = [], description = [], video_hd_url = None, audio_urls = []\<rparr>
      | Response soup \<Rightarrow>
          \<lparr>authors = (case persons_p soup of None \<Rightarrow> [] | Some authors_list \<Rightarrow> join '', '' authors_list),
           description = (case description_p soup of None \<Rightarrow> [] | Some text \<Rightarrow> text),
           video_hd_url = (case find (\<lambda>a. hd_href (a_href a)) (a_tags soup) of
                             None \<Rightarrow> None
                           | Some hd_btn \<Rightarrow> a_href hd_btn),
           audio_urls = audio_loop [] (audio_btns soup)\<rparr>)"

subsection \<open>\<open>get_release_url_from_website\<close>\<close>

text \<open>
  The listing page: the \<open>div\<close>s of class \<open>event-preview\<close> in document order. In each:
  the first \<open>div\<close> of class \<open>caption\<close>, in it the first \<open>h3\<close>, in it the first \<open>a\<close> with an
  \<open>href\<close>, any of which may be missing. Of the link, its \<open>href\<close> and its text
  (\<open>get_text(strip=True)\<close>).
\<close>

datatype link = Link (link_href: string) (link_text: string)

datatype h3_tag = H3 "link option"

datatype caption_div = Caption "h3_tag option"

datatype preview_div = Preview "caption_div option"

definition base_url :: string where
  "base_url = ''https://media.ccc.de''"

fun preview_loop :: "(string \<Rightarrow> string) \<Rightarrow> string \<Rightarrow> preview_div list \<Rightarrow> string option" where
  "preview_loop lower talk_title [] = None"
| "preview_loop lower talk_title (Preview None # event_previews) =
     preview_loop lower talk_title event_previews"
| "preview_loop lower talk_title (Preview (Some (Caption None)) # event_previews) =
     preview_loop lower talk_title event_previews"
| "preview_loop lower talk_title (Preview (Some (Caption (Some (H3 None)))) # event_previews) =
     preview_loop lower talk_title event_previews"
| "preview_loop lower talk_title
     (Preview (Some (Caption (Some (H3 (Some a_tag))))) # event_previews) =
     (if py_in (lower talk_title) (lower (link_text a_tag))
      then Some (base_url @ link_href a_tag)
      else preview_loop lower talk_title event_previews)"

text \<open>
  \<open>get_release_url_from_website\<close>, given \<open>str.lower\<close> and what fetching the listing
  gives.
\<close>

definition get_release_url_from_website ::
  "(string \<Rightarrow> string) \<Rightarrow> preview_div list response \<Rightarrow> string \<Rightarrow> string option" where
  "get_release_url_from_website lower resp talk_title =
     (case resp of
        RequestException \<Rightarrow> None
      | Response event_previews \<Rightarrow> preview_loop lower talk_title event_previews)"

section \<open>The enrichment step of \<open>main\<close>\<close>

text \<open>
  Lines 430 to 438 of \<open>main\<close>: the UPDATE of \<open>authors\<close> and \<open>description\<close> from the
  result of \<open>parse_release_page\<close>. An UPDATE whose \<open>WHERE id = ?\<close> matches no row
  changes nothing.
\<close>

definition main_update_authors_description :: "catalog \<Rightarrow> int \<Rightarrow> extra_info \<Rightarrow> catalog" where
  "main_update_authors_description conn talk_id info =
     (if authors info \<noteq> [] \<or> description info \<noteq> [] then
        (case talks conn talk_id of
           None \<Rightarrow> conn
         | Some row \<Rightarrow>
             conn\<lparr>talks := (talks conn)(talk_id \<mapsto>
               row\<lparr>r_authors := PStr (authors info), r_description := PStr (description info)\<rparr>)\<rparr>)
      else conn)"

section \<open>What the specification says, where it differs from the code\<close>

text \<open>
  The specification derives the codec of an audio link from the file extension of the
  link target: \<open>.mp3\<close> gives mp3, \<open>.opus\<close> gives opus, anything else gives other.
\<close>

definition spec_codec :: "string \<Rightarrow> string" where
  "spec_codec href =
     (if endswith href ''.mp3'' then ''mp3''
      else if endswith href ''.opus'' then ''opus''
      else ''other'')"

definition spec_audio_filetype :: "string option \<Rightarrow> string \<Rightarrow> string" where
  "spec_audio_filetype language href =
     ''audio_'' @ format_language language @ ''_'' @ spec_codec href"

text \<open>
  The specification resolves a link target against the origin of the listing
  (scheme and host): a target that is an absolute http(s) URL already stands for itself,
  a target starting with two slashes takes the scheme of the origin, a target starting
  with one slash is a path on the origin, and any other target is a path relative to the
  root of the origin.
\<close>

definition spec_resolve :: "string \<Rightarrow> string \<Rightarrow> string" where
  "spec_resolve origin target =
     (if prefix ''http://'' target \<or> prefix ''https://'' target then target
      else if prefix ''//'' target then takeWhile (\<lambda>c. c \<noteq> CHR '':'') origin @ '':'' @ target
      else if prefix ''/'' target then origin @ target
      else origin @ ''/'' @ target)"

section \<open>Notions for stating what the scrapers compute\<close>

text \<open>
  The link of a preview block, if the block has a caption with a heading with a link,
  and the links of a listing in document order.
\<close>

fun preview_link :: "preview_div \<Rightarrow> link option" where
  "preview_link (Preview (Some (Caption (Some (H3 (Some a_tag)))))) = Some a_tag"
| "preview_link _ = None"

definition listed_links :: "preview_div list \<Rightarrow> link list" where
  "listed_links event_previews = List.map_filter preview_link event_previews"

text \<open>
  The title occurs in the link text when both are lowered: upper and lower case are
  taken as equal.
\<close>

definition title_in_link_text :: "(string \<Rightarrow> string) \<Rightarrow> string \<Rightarrow> link \<Rightarrow> bool" where
  "title_in_link_text lower talk_title a_tag =
     sublist (lower talk_title) (lower (link_text a_tag))"

text \<open>
  The audio links that have a non-empty target, in document order, each with its class
  tokens and its target.
\<close>

definition audio_link :: "anchor \<Rightarrow> (string list \<times> string) option" where
  "audio_link a =
     (case a_href a of
        None \<Rightarrow> None
      | Some href \<Rightarrow> if href = [] then None else Some (a_class a, href))"

definition audio_links :: "anchor list \<Rightarrow> (string list \<times> string) list" where
  "audio_links btns = List.map_filter audio_link btns"

text \<open>
  The language code among the class tokens: the last of the known codes, \<open>None\<close> when
  there is none.
\<close>

definition known_language :: "string list \<Rightarrow> string option" where
  "known_language classes =
     (case filter (\<lambda>c. c \<in> set [''deu'', ''eng'', ''fra'']) classes of
        [] \<Rightarrow> None
      | c # cs \<Rightarrow> Some (last (c # cs)))"

text \<open>
  The codec by occurrence: mp3 when \<open>.mp3\<close> occurs anywhere in the target, otherwise
  opus when \<open>.opus\<close> occurs anywhere in it, otherwise other.
\<close>

definition occurring_codec :: "string \<Rightarrow> string" where
  "occurring_codec href =
     (if sublist ''.mp3'' href then ''mp3''
      else if sublist ''.opus'' href then ''opus''
      else ''other'')"

section \<open>The catalog: properties\<close>

text \<open>
  The default mtime 0 can be bound.
\<close>

lemma fits_int64_0: "fits_int64 0"
  by (simp add: fits_int64_def)

text \<open>
  After a successful upsert of a snapshot with integer mtime \<open>m\<close>, the id fits 64
  bits, the row of that id exists and its \<open>last_mtime\<close> is an integer not below \<open>m\<close>.
\<close>

lemma upsert_talk_stored_mtime:
  assumes "td_dict s ''mtime'' = Some (PInt m)"
    and "upsert_talk db s = (None, db')"
  shows "fits_int64 (td_id s) \<and>
         (\<exists>row k. talks db' (td_id s) = Some row \<and>
           (if truthy (r_last_mtime row) then r_last_mtime row else PInt 0) = PInt k \<and> m \<le> k)"
proof (cases "talks db (td_id s)")
  case None
  with assms show ?thesis
    by (auto simp: upsert_talk_def dict_get_default_def Let_def split: if_splits)
next
  case (Some row)
  show ?thesis
  proof (cases "r_last_mtime row")
    case PNone
    with Some assms show ?thesis
      by (auto simp: upsert_talk_def dict_get_def Let_def split: if_splits)
  next
    case (PInt k)
    with Some assms show ?thesis
      by (auto simp: upsert_talk_def dict_get_def Let_def split: if_splits)
  next
    case (PStr t)
    with Some assms show ?thesis
      by (cases "t = []") (auto simp: upsert_talk_def dict_get_def Let_def split: if_splits)
  qed
qed

text \<open>
  C1. Two snapshots of the same talk with integer mtimes, the second not newer than the
  first: once the first has been upserted, upserting the second returns normally and
  leaves the whole catalog, hence the stored row, as the first upsert left it.
\<close>

theorem upsert_talk_stale_ignored:
  assumes "td_id s2 = td_id s1"
    and "td_dict s1 ''mtime'' = Some (PInt m1)"
    and "td_dict s2 ''mtime'' = Some (PInt m2)"
    and "m2 \<le> m1"
    and "upsert_talk db s1 = (None, db1)"
  shows "upsert_talk db1 s2 = (None, db1)"
proof -
  from upsert_talk_stored_mtime [OF assms(2) assms(5)]
  obtain row k where id: "fits_int64 (td_id s1)"
    and row: "talks db1 (td_id s1) = Some row"
    and k: "(if truthy (r_last_mtime row) then r_last_mtime row else PInt 0) = PInt k"
    and mk: "m1 \<le> k"
    by blast
  from assms(4) mk have "\<not> m2 > k" by simp
  with id row k assms(1) assms(3) show ?thesis
    by (simp add: upsert_talk_def Let_def)
qed

theorem upsert_talk_stale_ignored_witness:
  "upsert_talk (snd (upsert_talk (init_db None)
       \<lparr>td_id = 1, td_dict = [''title'' \<mapsto> PStr ''Talk A'', ''mtime'' \<mapsto> PInt 5]\<rparr>))
     \<lparr>td_id = 1, td_dict = [''title'' \<mapsto> PStr ''Talk B'', ''mtime'' \<mapsto> PInt 5]\<rparr>
   = (None, snd (upsert_talk (init_db None)
       \<lparr>td_id = 1, td_dict = [''title'' \<mapsto> PStr ''Talk A'', ''mtime'' \<mapsto> PInt 5]\<rparr>))
   \<and> map_option r_title (talks (snd (upsert_talk (init_db None)
       \<lparr>td_id = 1, td_dict = [''title'' \<mapsto> PStr ''Talk A'', ''mtime'' \<mapsto> PInt 5]\<rparr>)) 1)
     = Some (PStr ''Talk A'')"
proof -
  let ?s1 = "\<lparr>td_id = 1, td_dict = [''title'' \<mapsto> PStr ''Talk A'', ''mtime'' \<mapsto> PInt 5]\<rparr>"
  let ?s2 = "\<lparr>td_id = 1, td_dict = [''title'' \<mapsto> PStr ''Talk B'', ''mtime'' \<mapsto> PInt 5]\<rparr>"
  have ok: "upsert_talk (init_db None) ?s1 = (None, snd (upsert_talk (init_db None) ?s1))"
    by (simp add: upsert_talk_def init_db_def Let_def fits_int64_def dict_get_def
          dict_get_default_def)
  have "upsert_talk (snd (upsert_talk (init_db None) ?s1)) ?s2
          = (None, snd (upsert_talk (init_db None) ?s1))"
    using upsert_talk_stale_ignored [of ?s2 ?s1 5 5 "init_db None", OF _ _ _ _ ok]
    by simp
  moreover have "map_option r_title (talks (snd (upsert_talk (init_db None) ?s1)) 1)
     = Some (PStr ''Talk A'')"
    by (simp add: upsert_talk_def init_db_def dict_get_def Let_def fits_int64_def
          dict_get_default_def)
  ultimately show ?thesis by simp
qed

text \<open>
  A snapshot with a strictly newer integer mtime that can be stored overwrites whatever
  the older one stored, and what the older one did not touch (\<open>authors\<close>,
  \<open>description\<close>) is the same on both sides.
\<close>

lemma upsert_talk_newer_after:
  assumes "td_id s2 = td_id s1"
    and "td_dict s1 ''mtime'' = Some (PInt m1)"
    and "td_dict s2 ''mtime'' = Some (PInt m2)"
    and "m1 < m2"
    and "upsert_talk db s1 = (None, db1)"
    and "fst (upsert_talk db s2) = None"
  shows "upsert_talk db1 s2 = upsert_talk db s2"
proof (cases "talks db (td_id s1)")
  case None
  with assms show ?thesis
    by (auto simp: upsert_talk_def dict_get_default_def dict_get_def Let_def split: if_splits)
next
  case (Some row)
  show ?thesis
  proof (cases "r_last_mtime row")
    case PNone
    with Some assms show ?thesis
      by (auto simp: upsert_talk_def dict_get_def Let_def split: if_splits)
  next
    case (PInt k)
    with Some assms show ?thesis
      by (auto simp: upsert_talk_def dict_get_def Let_def split: if_splits)
  next
    case (PStr t)
    with Some assms show ?thesis
      by (cases "t = []") (auto simp: upsert_talk_def dict_get_def Let_def split: if_splits)
  qed
qed

text \<open>
  C2. Two snapshots of the same talk with integer mtimes, the second strictly newer
  than the first, each of which \<open>upsert_talk\<close> applies to the catalog without an
  exception: upserting the second after the first returns normally too and gives the
  same catalog, hence the same stored row, as upserting the second alone.
\<close>

theorem upsert_talk_newer_wins:
  assumes "td_id s2 = td_id s1"
    and "td_dict s1 ''mtime'' = Some (PInt m1)"
    and "td_dict s2 ''mtime'' = Some (PInt m2)"
    and "m1 < m2"
    and "upsert_talk db s1 = (None, db1)"
    and "fst (upsert_talk db s2) = None"
  shows "upsert_talk db1 s2 = upsert_talk db s2 \<and> fst (upsert_talk db1 s2) = None"
proof -
  have "upsert_talk db1 s2 = upsert_talk db s2"
    by (rule upsert_talk_newer_after [OF assms])
  with assms(6) show ?thesis by simp
qed

theorem upsert_talk_newer_wins_witness:
  "upsert_talk (snd (upsert_talk (init_db None)
       \<lparr>td_id = 1, td_dict = [''title'' \<mapsto> PStr ''Talk A'', ''mtime'' \<mapsto> PInt 5]\<rparr>))
     \<lparr>td_id = 1, td_dict = [''title'' \<mapsto> PStr ''Talk B'', ''mtime'' \<mapsto> PInt 6]\<rparr>
   = upsert_talk (init_db None)
       \<lparr>td_id = 1, td_dict = [''title'' \<mapsto> PStr ''Talk B'', ''mtime'' \<mapsto> PInt 6]\<rparr>
   \<and> fst (upsert_talk (init_db None)
       \<lparr>td_id = 1, td_dict = [''title'' \<mapsto> PStr ''Talk B'', ''mtime'' \<mapsto> PInt 6]\<rparr>) = None
   \<and> map_option r_title (talks (snd (upsert_talk (init_db None)
       \<lparr>td_id = 1, td_dict = [''title'' \<mapsto> PStr ''Talk B'', ''mtime'' \<mapsto> PInt 6]\<rparr>)) 1)
     = Some (PStr ''Talk B'')"
proof -
  let ?s1 = "\<lparr>td_id = 1, td_dict = [''title'' \<mapsto> PStr ''Talk A'', ''mtime'' \<mapsto> PInt 5]\<rparr>"
  let ?s2 = "\<lparr>td_id = 1, td_dict = [''title'' \<mapsto> PStr ''Talk B'', ''mtime'' \<mapsto> PInt 6]\<rparr>"
  have ok: "upsert_talk (init_db None) ?s1 = (None, snd (upsert_talk (init_db None) ?s1))"
    by (simp add: upsert_talk_def init_db_def Let_def fits_int64_def dict_get_def
          dict_get_default_def)
  have ok2: "fst (upsert_talk (init_db None) ?s2) = None"
    by (simp add: upsert_talk_def init_db_def Let_def fits_int64_def dict_get_def
          dict_get_default_def)
  have "upsert_talk (snd (upsert_talk (init_db None) ?s1)) ?s2 = upsert_talk (init_db None) ?s2"
    using upsert_talk_newer_wins [of ?s2 ?s1 5 6 "init_db None", OF _ _ _ _ ok ok2]
    by simp
  moreover have "map_option r_title (talks (snd (upsert_talk (init_db None) ?s2)) 1)
     = Some (PStr ''Talk B'')"
    by (simp add: upsert_talk_def init_db_def dict_get_def Let_def fits_int64_def
          dict_get_default_def)
  ultimately show ?thesis using ok2 by simp
qed

text \<open>
  A newer snapshot that cannot be applied: with the mtime \<open>2 ^ 63\<close> the INSERT and the
  UPDATE both raise \<open>OverflowError\<close>. Alone, the snapshot leaves no row; after the older
  snapshot, the row of the older snapshot stays.
\<close>

lemma upsert_talk_newer_overflow:
  "upsert_talk \<lparr>talks = Map.empty, files = []\<rparr>
     \<lparr>td_id = 1, td_dict = [''title'' \<mapsto> PStr ''Talk B'', ''mtime'' \<mapsto> PInt (2 ^ 63)]\<rparr>
   = (Some OverflowError, \<lparr>talks = Map.empty, files = []\<rparr>) \<and>
   fst (upsert_talk (snd (upsert_talk \<lparr>talks = Map.empty, files = []\<rparr>
       \<lparr>td_id = 1, td_dict = [''title'' \<mapsto> PStr ''Talk A'', ''mtime'' \<mapsto> PInt 5]\<rparr>))
     \<lparr>td_id = 1, td_dict = [''title'' \<mapsto> PStr ''Talk B'', ''mtime'' \<mapsto> PInt (2 ^ 63)]\<rparr>)
   = Some OverflowError \<and>
   map_option r_title (talks (snd (upsert_talk (snd (upsert_talk \<lparr>talks = Map.empty, files = []\<rparr>
       \<lparr>td_id = 1, td_dict = [''title'' \<mapsto> PStr ''Talk A'', ''mtime'' \<mapsto> PInt 5]\<rparr>))
     \<lparr>td_id = 1, td_dict = [''title'' \<mapsto> PStr ''Talk B'', ''mtime'' \<mapsto> PInt (2 ^ 63)]\<rparr>)) 1)
   = Some (PStr ''Talk A'')"
  by (simp add: upsert_talk_def Let_def fits_int64_def dict_get_def dict_get_default_def)

text \<open>
  C10. A snapshot dict without the key \<open>mtime\<close>: when a row with its id exists,
  \<open>upsert_talk\<close> raises \<open>KeyError\<close> and the catalog is as it was; when the id is seen
  for the first time, the row is inserted with \<open>last_mtime\<close> 0 and the call returns
  normally. So the call returns normally for such a snapshot only if no row with its id
  exists. (An id or a value outside the 64-bit range raises \<open>OverflowError\<close> before
  that, and the catalog is as it was.)
\<close>

theorem upsert_talk_missing_mtime:
  assumes "td_dict s ''mtime'' = None"
  shows "upsert_talk db s =
     (if \<not> fits_int64 (td_id s) then (Some OverflowError, db)
      else
        case talks db (td_id s) of
          None \<Rightarrow>
            if list_all bindable
                 [dict_get (td_dict s) ''guid'', dict_get (td_dict s) ''title'',
                  dict_get (td_dict s) ''room'', dict_get (td_dict s) ''status'',
                  dict_get (td_dict s) ''start'', dict_get (td_dict s) ''duration'',
                  dict_get (td_dict s) ''release_url'']
            then
              (None, db\<lparr>talks := (talks db)(td_id s \<mapsto>
                 \<lparr>r_guid = dict_get (td_dict s) ''guid'',
                  r_title = dict_get (td_dict s) ''title'',
                  r_room = dict_get (td_dict s) ''room'',
                  r_status = dict_get (td_dict s) ''status'',
                  r_start = dict_get (td_dict s) ''start'',
                  r_duration = dict_get (td_dict s) ''duration'',
                  r_release_url = dict_get (td_dict s) ''release_url'',
                  r_authors = PNone,
                  r_description = PNone,
                  r_last_mtime = PInt 0\<rparr>)\<rparr>)
            else (Some OverflowError, db)
        | Some row \<Rightarrow> (Some (KeyError ''mtime''), db))"
  using assms
  by (auto simp: upsert_talk_def Let_def dict_get_default_def fits_int64_0 split: option.splits)

theorem upsert_talk_missing_mtime_witness:
  "upsert_talk (init_db None) \<lparr>td_id = 7, td_dict = [''title'' \<mapsto> PStr ''Talk A'']\<rparr>
     = (None, \<lparr>talks = [7 \<mapsto> \<lparr>r_guid = PNone, r_title = PStr ''Talk A'', r_room = PNone,
                 r_status = PNone, r_start = PNone, r_duration = PNone, r_release_url = PNone,
                 r_authors = PNone, r_description = PNone, r_last_mtime = PInt 0\<rparr>], files = []\<rparr>)
   \<and> upsert_talk \<lparr>talks = [7 \<mapsto> \<lparr>r_guid = PNone, r_title = PStr ''Talk A'', r_room = PNone,
                 r_status = PNone, r_start = PNone, r_duration = PNone, r_release_url = PNone,
                 r_authors = PNone, r_description = PNone, r_last_mtime = PInt 0\<rparr>], files = []\<rparr>
        \<lparr>td_id = 7, td_dict = [''title'' \<mapsto> PStr ''Talk A'']\<rparr>
     = (Some (KeyError ''mtime''),
        \<lparr>talks = [7 \<mapsto> \<lparr>r_guid = PNone, r_title = PStr ''Talk A'', r_room = PNone,
                 r_status = PNone, r_start = PNone, r_duration = PNone, r_release_url = PNone,
                 r_authors = PNone, r_description = PNone, r_last_mtime = PInt 0\<rparr>], files = []\<rparr>)"
proof -
  let ?s = "\<lparr>td_id = 7, td_dict = [''title'' \<mapsto> PStr ''Talk A'']\<rparr>"
  have h: "td_dict ?s ''mtime'' = None" by simp
  show ?thesis
    using upsert_talk_missing_mtime [OF h, of "init_db None"]
      upsert_talk_missing_mtime [OF h, of "\<lparr>talks = [7 \<mapsto> \<lparr>r_guid = PNone, r_title = PStr ''Talk A'', r_room = PNone,
                 r_status = PNone, r_start = PNone, r_duration = PNone, r_release_url = PNone,
                 r_authors = PNone, r_description = PNone, r_last_mtime = PInt 0\<rparr>], files = []\<rparr>"]
    by (simp add: init_db_def dict_get_def fits_int64_def)
qed

text \<open>
  Properties of \<open>insert_or_ignore_file\<close>: it keeps the triples of the rows pairwise
  different, the triple it was called with is in the table afterwards, and a second
  call with the same triple changes nothing.
\<close>

lemma insert_or_ignore_file_distinct:
  assumes "distinct (map file_key (files conn))"
  shows "distinct (map file_key (files (insert_or_ignore_file conn talk_id file_type file_url local_path)))"
proof (cases "find (\<lambda>r. f_talk_id r = talk_id \<and> f_file_type r = file_type \<and> f_file_url r = file_url) (files conn)")
  case None
  then have "(talk_id, file_type, file_url) \<notin> file_key ` set (files conn)"
    by (auto simp: find_None_iff file_key_def)
  with None assms show ?thesis
    by (simp add: insert_or_ignore_file_def file_key_def)
next
  case (Some row)
  with assms show ?thesis
    by (simp add: insert_or_ignore_file_def)
qed

lemma insert_or_ignore_files_distinct:
  "distinct (map file_key (files conn)) \<Longrightarrow>
   distinct (map file_key (files (insert_or_ignore_files conn calls)))"
proof (induction calls arbitrary: conn)
  case Nil
  then show ?case by simp
next
  case (Cons call calls)
  obtain talk_id file_type file_url local_path
    where call: "call = (talk_id, file_type, file_url, local_path)"
    by (cases call) auto
  from Cons.prems
  have "distinct (map file_key (files (insert_or_ignore_file conn talk_id file_type file_url local_path)))"
    by (rule insert_or_ignore_file_distinct)
  then show ?case
    unfolding call by (simp add: Cons.IH)
qed

lemma insert_or_ignore_file_present:
  "(talk_id, file_type, file_url) \<in>
     file_key ` set (files (insert_or_ignore_file conn talk_id file_type file_url local_path))"
proof (cases "find (\<lambda>r. f_talk_id r = talk_id \<and> f_file_type r = file_type \<and> f_file_url r = file_url) (files conn)")
  case None
  then show ?thesis
    by (simp add: insert_or_ignore_file_def file_key_def)
next
  case (Some row)
  then have "row \<in> set (files conn)" "file_key row = (talk_id, file_type, file_url)"
    by (auto simp: find_Some_iff file_key_def in_set_conv_nth)
  with Some show ?thesis
    by (force simp: insert_or_ignore_file_def)
qed

lemma insert_or_ignore_file_again:
  "insert_or_ignore_file (insert_or_ignore_file conn talk_id file_type file_url p1)
     talk_id file_type file_url p2
   = insert_or_ignore_file conn talk_id file_type file_url p1"
proof -
  let ?conn1 = "insert_or_ignore_file conn talk_id file_type file_url p1"
  from insert_or_ignore_file_present [of talk_id file_type file_url conn p1]
  have "find (\<lambda>r. f_talk_id r = talk_id \<and> f_file_type r = file_type \<and> f_file_url r = file_url)
          (files ?conn1) \<noteq> None"
    by (auto simp: find_None_iff file_key_def)
  then show ?thesis
    by (auto simp: insert_or_ignore_file_def [of ?conn1])
qed

lemma distinct_key_once:
  "distinct (map key rows) \<Longrightarrow> k \<in> key ` set rows \<Longrightarrow>
   length (filter (\<lambda>r. key r = k) rows) = 1"
proof (induction rows)
  case Nil
  then show ?case by simp
next
  case (Cons r rows)
  show ?case
  proof (cases "key r = k")
    case True
    with Cons.prems have "k \<notin> key ` set rows"
      by simp
    then have "filter (\<lambda>r. key r = k) rows = []"
      by (auto simp: filter_empty_conv)
    with True show ?thesis by simp
  next
    case False
    with Cons show ?thesis by auto
  qed
qed

text \<open>
  C3. In a \<open>files\<close> table with at most one row per triple (\<open>talk_id\<close>,
  \<open>file_type\<close>, \<open>file_url\<close>), as the empty table \<open>init_db\<close> creates is, every
  sequence of \<open>insert_or_ignore_file\<close> calls leaves at most one row per triple; and
  after two further calls with the same triple exactly one row has that triple.
\<close>

theorem files_triple_unique:
  assumes "distinct (map file_key (files conn))"
  shows "distinct (map file_key (files (insert_or_ignore_files conn calls))) \<and>
         length (filter (\<lambda>r. file_key r = (talk_id, file_type, file_url))
           (files (insert_or_ignore_file
              (insert_or_ignore_file (insert_or_ignore_files conn calls) talk_id file_type file_url p1)
              talk_id file_type file_url p2))) = 1"
proof -
  let ?conn' = "insert_or_ignore_files conn calls"
  let ?conn1 = "insert_or_ignore_file ?conn' talk_id file_type file_url p1"
  have d: "distinct (map file_key (files ?conn'))"
    using assms by (rule insert_or_ignore_files_distinct)
  then have "distinct (map file_key (files ?conn1))"
    by (rule insert_or_ignore_file_distinct)
  moreover have "(talk_id, file_type, file_url) \<in> file_key ` set (files ?conn1)"
    by (rule insert_or_ignore_file_present)
  ultimately have "length (filter (\<lambda>r. file_key r = (talk_id, file_type, file_url)) (files ?conn1)) = 1"
    by (rule distinct_key_once)
  with d show ?thesis
    by (simp add: insert_or_ignore_file_again)
qed

theorem files_triple_unique_witness:
  "distinct (map file_key (files (init_db None))) \<and>
   files (insert_or_ignore_files (init_db None)
     [(1, ''muxed'', ''https://cdn.c3voc.de/relive/38c3/1/muxed.mp4'', ''download/1/muxed.mp4''),
      (1, ''thumbnail'', ''https://cdn.c3voc.de/thumb/1.jpg'', ''download/1/thumb.jpg''),
      (1, ''muxed'', ''https://cdn.c3voc.de/relive/38c3/1/muxed.mp4'', ''download/1/muxed.mp4'')])
   = [\<lparr>f_id = 1, f_talk_id = 1, f_file_type = ''muxed'',
       f_file_url = ''https://cdn.c3voc.de/relive/38c3/1/muxed.mp4'',
       f_local_path = ''download/1/muxed.mp4''\<rparr>,
      \<lparr>f_id = 2, f_talk_id = 1, f_file_type = ''thumbnail'',
       f_file_url = ''https://cdn.c3voc.de/thumb/1.jpg'',
       f_local_path = ''download/1/thumb.jpg''\<rparr>] \<and>
   length (filter (\<lambda>r. file_key r = (1, ''muxed'', ''https://cdn.c3voc.de/relive/38c3/1/muxed.mp4''))
     (files (insert_or_ignore_file (insert_or_ignore_file (insert_or_ignore_files (init_db None) [])
        1 ''muxed'' ''https://cdn.c3voc.de/relive/38c3/1/muxed.mp4'' ''download/1/muxed.mp4'')
        1 ''muxed'' ''https://cdn.c3voc.de/relive/38c3/1/muxed.mp4'' ''download/1/muxed.mp4''))) = 1"
proof -
  have h: "distinct (map file_key (files (init_db None)))"
    by (simp add: init_db_def)
  have run: "files (insert_or_ignore_files (init_db None)
     [(1, ''muxed'', ''https://cdn.c3voc.de/relive/38c3/1/muxed.mp4'', ''download/1/muxed.mp4''),
      (1, ''thumbnail'', ''https://cdn.c3voc.de/thumb/1.jpg'', ''download/1/thumb.jpg''),
      (1, ''muxed'', ''https://cdn.c3voc.de/relive/38c3/1/muxed.mp4'', ''download/1/muxed.mp4'')])
   = [\<lparr>f_id = 1, f_talk_id = 1, f_file_type = ''muxed'',
       f_file_url = ''https://cdn.c3voc.de/relive/38c3/1/muxed.mp4'',
       f_local_path = ''download/1/muxed.mp4''\<rparr>,
      \<lparr>f_id = 2, f_talk_id = 1, f_file_type = ''thumbnail'',
       f_file_url = ''https://cdn.c3voc.de/thumb/1.jpg'',
       f_local_path = ''download/1/thumb.jpg''\<rparr>]"
    by (simp add: init_db_def insert_or_ignore_file_def next_file_id_def)
  from files_triple_unique [OF h, of "[]" 1 "''muxed''"
      "''https://cdn.c3voc.de/relive/38c3/1/muxed.mp4''" "''download/1/muxed.mp4''" "''download/1/muxed.mp4''"]
  show ?thesis using h run by simp
qed

section \<open>Download: properties\<close>

text \<open>
  The chunk loop writes the chunks one after the other.
\<close>

lemma write_chunks_concat: "write_chunks f chunks = f @ concat chunks"
  by (induction chunks arbitrary: f) auto

text \<open>
  \<open>download_file\<close> returns \<open>False\<close> exactly when the skip rule does not apply and the
  GET fails: it raises before a response, its status is not a success, or the stream
  breaks.
\<close>

lemma download_file_fails_iff:
  "\<not> dl_ok (download_file net fs url dest_path) \<longleftrightarrow>
     \<not> (size_truthy (probe_expected_size (net_head net url)) \<and>
        (\<exists>content. fs dest_path = Some content \<and>
           Some (int (length content)) = probe_expected_size (net_head net url))) \<and>
     (net_get net url = GetRaises \<or>
      (\<exists>chunks completes. net_get net url = GetResponse False chunks completes) \<or>
      (\<exists>chunks. net_get net url = GetResponse True chunks False))"
  by (auto simp: download_file_def Let_def split: get_outcome.splits option.splits)

text \<open>
  C4. Whenever \<open>download_file\<close> returns \<open>False\<close>, no file exists at \<open>dest_path\<close>
  afterwards, whatever was there before the call and however many chunks had been
  written when the transfer failed.
\<close>

theorem download_file_failure_leaves_no_file:
  assumes "\<not> dl_ok (download_file net fs url dest_path)"
  shows "dl_fs (download_file net fs url dest_path) dest_path = None"
  using assms
  by (auto simp: download_file_def Let_def unlink_if_exists_def
           split: get_outcome.splits option.splits if_splits)

theorem download_file_failure_leaves_no_file_witness:
  "\<not> dl_ok (download_file
       \<lparr>net_head = (\<lambda>u. HeadResponse True (Some (IntText 8))),
        net_get = (\<lambda>u. GetResponse True [''abc'', ''de''] False)\<rparr>
       [''download/1/muxed.mp4'' \<mapsto> ''old'']
       ''https://cdn.c3voc.de/relive/38c3/1/muxed.mp4'' ''download/1/muxed.mp4'') \<and>
   dl_fs (download_file
       \<lparr>net_head = (\<lambda>u. HeadResponse True (Some (IntText 8))),
        net_get = (\<lambda>u. GetResponse True [''abc'', ''de''] False)\<rparr>
       [''download/1/muxed.mp4'' \<mapsto> ''old'']
       ''https://cdn.c3voc.de/relive/38c3/1/muxed.mp4'' ''download/1/muxed.mp4'')
     ''download/1/muxed.mp4'' = None"
proof -
  have h: "\<not> dl_ok (download_file
       \<lparr>net_head = (\<lambda>u. HeadResponse True (Some (IntText 8))),
        net_get = (\<lambda>u. GetResponse True [''abc'', ''de''] False)\<rparr>
       [''download/1/muxed.mp4'' \<mapsto> ''old'']
       ''https://cdn.c3voc.de/relive/38c3/1/muxed.mp4'' ''download/1/muxed.mp4'')"
    by (simp add: download_file_def Let_def probe_expected_size_def size_truthy_def)
  from download_file_failure_leaves_no_file [OF h] h show ?thesis by simp
qed

text \<open>
  The skip rule for an expected size other than 0: a file of exactly that size is left
  as it is, only the HEAD request is sent, and the call returns \<open>True\<close>.
\<close>

lemma download_file_skip:
  assumes "probe_expected_size (net_head net url) = Some n"
    and "n \<noteq> 0"
    and "fs dest_path = Some content"
    and "int (length content) = n"
  shows "download_file net fs url dest_path =
           \<lparr>dl_ok = True, dl_fs = fs, dl_requests = [HEAD url], dl_printed = [MsgAlreadyComplete]\<rparr>"
  using assms by (simp add: download_file_def size_truthy_def)

text \<open>
  C5. The skip rule at the expected size 0. The probe reports \<open>Content-Length: 0\<close>, an
  empty file, of exactly that size, exists at \<open>dest_path\<close>, and the GET request raises:
  \<open>download_file\<close> deletes the file, sends the GET request and returns \<open>False\<close>, since
  \<open>if expected_size and ...\<close> takes the size 0 for no size at all.
\<close>

theorem download_file_empty_file_refetched:
  "probe_expected_size (net_head
       \<lparr>net_head = (\<lambda>u. HeadResponse True (Some (IntText 0))), net_get = (\<lambda>u. GetRaises)\<rparr>
       ''https://cdn.c3voc.de/thumb/1.jpg'') = Some 0 \<and>
   map_option length ([''download/1/thumb.jpg'' \<mapsto> ''''] ''download/1/thumb.jpg'') = Some 0 \<and>
   dl_ok (download_file
       \<lparr>net_head = (\<lambda>u. HeadResponse True (Some (IntText 0))), net_get = (\<lambda>u. GetRaises)\<rparr>
       [''download/1/thumb.jpg'' \<mapsto> '''']
       ''https://cdn.c3voc.de/thumb/1.jpg'' ''download/1/thumb.jpg'') = False \<and>
   dl_requests (download_file
       \<lparr>net_head = (\<lambda>u. HeadResponse True (Some (IntText 0))), net_get = (\<lambda>u. GetRaises)\<rparr>
       [''download/1/thumb.jpg'' \<mapsto> '''']
       ''https://cdn.c3voc.de/thumb/1.jpg'' ''download/1/thumb.jpg'')
     = [HEAD ''https://cdn.c3voc.de/thumb/1.jpg'', GET ''https://cdn.c3voc.de/thumb/1.jpg''] \<and>
   dl_fs (download_file
       \<lparr>net_head = (\<lambda>u. HeadResponse True (Some (IntText 0))), net_get = (\<lambda>u. GetRaises)\<rparr>
       [''download/1/thumb.jpg'' \<mapsto> '''']
       ''https://cdn.c3voc.de/thumb/1.jpg'' ''download/1/thumb.jpg'')
     ''download/1/thumb.jpg'' = None"
  by (simp add: download_file_def Let_def probe_expected_size_def size_truthy_def
        unlink_if_exists_def)

text \<open>
  A completed transfer whose size differs from the expected size: \<open>download_file\<close>
  returns \<open>True\<close>, the transferred bytes are the file at \<open>dest_path\<close>, and no error
  message is printed.
\<close>

lemma download_file_size_mismatch_is_success:
  assumes "probe_expected_size (net_head net url) = Some n"
    and "GET url \<in> set (dl_requests (download_file net fs url dest_path))"
    and "net_get net url = GetResponse True chunks True"
    and "int (length (concat chunks)) \<noteq> n"
  shows "dl_ok (download_file net fs url dest_path) \<and>
         dl_fs (download_file net fs url dest_path) dest_path = Some (concat chunks) \<and>
         MsgError \<notin> set (dl_printed (download_file net fs url dest_path))"
  using assms
  by (auto simp: download_file_def Let_def write_chunks_concat split: if_splits)

text \<open>
  With an expected size other than 0 the message printed last is then the warning.
\<close>

lemma download_file_size_mismatch_warns:
  assumes "probe_expected_size (net_head net url) = Some n"
    and "n \<noteq> 0"
    and "GET url \<in> set (dl_requests (download_file net fs url dest_path))"
    and "net_get net url = GetResponse True chunks True"
    and "int (length (concat chunks)) \<noteq> n"
  shows "last (dl_printed (download_file net fs url dest_path)) = MsgSizeWarning"
  using assms
  by (auto simp: download_file_def Let_def write_chunks_concat size_truthy_def split: if_splits)

text \<open>
  C9. The size mismatch at the expected size 0. The probe reports
  \<open>Content-Length: 0\<close>, the GET request is sent and its transfer of five bytes
  completes: \<open>download_file\<close> returns \<open>True\<close> and keeps the five bytes, as the claim
  says, but it prints the message of success and no warning, since
  \<open>if expected_size and ...\<close> in line 232 takes the size 0 for no size at all.
\<close>

theorem download_file_zero_size_no_warning:
  "probe_expected_size (net_head
       \<lparr>net_head = (\<lambda>u. HeadResponse True (Some (IntText 0))),
        net_get = (\<lambda>u. GetResponse True [''abc'', ''de''] True)\<rparr>
       ''https://cdn.c3voc.de/relive/38c3/1/muxed.mp4'') = Some 0 \<and>
   dl_requests (download_file
       \<lparr>net_head = (\<lambda>u. HeadResponse True (Some (IntText 0))),
        net_get = (\<lambda>u. GetResponse True [''abc'', ''de''] True)\<rparr>
       Map.empty
       ''https://cdn.c3voc.de/relive/38c3/1/muxed.mp4'' ''download/1/muxed.mp4'')
     = [HEAD ''https://cdn.c3voc.de/relive/38c3/1/muxed.mp4'',
        GET ''https://cdn.c3voc.de/relive/38c3/1/muxed.mp4''] \<and>
   dl_ok (download_file
       \<lparr>net_head = (\<lambda>u. HeadResponse True (Some (IntText 0))),
        net_get = (\<lambda>u. GetResponse True [''abc'', ''de''] True)\<rparr>
       Map.empty
       ''https://cdn.c3voc.de/relive/38c3/1/muxed.mp4'' ''download/1/muxed.mp4'') = True \<and>
   dl_fs (download_file
       \<lparr>net_head = (\<lambda>u. HeadResponse True (Some (IntText 0))),
        net_get = (\<lambda>u. GetResponse True [''abc'', ''de''] True)\<rparr>
       Map.empty
       ''https://cdn.c3voc.de/relive/38c3/1/muxed.mp4'' ''download/1/muxed.mp4'')
     ''download/1/muxed.mp4'' = Some ''abcde'' \<and>
   int (length ''abcde'') \<noteq> 0 \<and>
   dl_printed (download_file
       \<lparr>net_head = (\<lambda>u. HeadResponse True (Some (IntText 0))),
        net_get = (\<lambda>u. GetResponse True [''abc'', ''de''] True)\<rparr>
       Map.empty
       ''https://cdn.c3voc.de/relive/38c3/1/muxed.mp4'' ''download/1/muxed.mp4'')
     = [MsgDownloading, MsgSuccess]"
  by (simp add: download_file_def Let_def probe_expected_size_def size_truthy_def
        unlink_if_exists_def)

section \<open>Scraping and enrichment: properties\<close>

text \<open>
  \<open>py_in\<close> is the test for a contiguous sublist.
\<close>

lemma py_in_sublist: "py_in needle haystack \<longleftrightarrow> sublist needle haystack"
  by (induction haystack) (auto simp: sublist_Cons_right)

text \<open>
  The loop over the preview blocks returns at the first link, in document order, whose
  lowered text contains the lowered title.
\<close>

lemma preview_loop_find:
  "preview_loop lower talk_title event_previews =
     map_option (\<lambda>a. base_url @ link_href a)
       (find (title_in_link_text lower talk_title) (listed_links event_previews))"
proof (induction lower talk_title event_previews rule: preview_loop.induct)
  case (5 lower talk_title a_tag event_previews)
  then show ?case
    by (simp add: listed_links_def List.map_filter_simps title_in_link_text_def py_in_sublist)
qed (simp_all add: listed_links_def List.map_filter_simps)

text \<open>
  For a target that starts with exactly one slash, appending it to \<open>base_url\<close> is
  resolving it against \<open>base_url\<close>.
\<close>

lemma root_relative_resolve:
  "prefix ''/'' href \<Longrightarrow> \<not> prefix ''//'' href \<Longrightarrow> spec_resolve base_url href = base_url @ href"
  by (auto simp: spec_resolve_def prefix_def)

text \<open>
  C6, as amended. \<open>get_release_url_from_website\<close> returns \<open>None\<close> when the listing
  cannot be fetched or no link text contains the title, both lowered by \<open>str.lower\<close>
  (upper and lower case taken as equal); otherwise, for the first such link in document
  order, \<open>base_url\<close> followed by the link target as it stands. For a target that starts
  with exactly one slash this is the target resolved against the origin. This holds for
  whatever function \<open>str.lower\<close> is.
\<close>

theorem get_release_url_from_website_first_match:
  "get_release_url_from_website lower resp talk_title =
     (case resp of
        RequestException \<Rightarrow> None
      | Response event_previews \<Rightarrow>
          map_option (\<lambda>a. base_url @ link_href a)
            (find (title_in_link_text lower talk_title) (listed_links event_previews))) \<and>
   (prefix ''/'' href \<and> \<not> prefix ''//'' href \<longrightarrow> base_url @ href = spec_resolve base_url href)"
  by (simp add: get_release_url_from_website_def preview_loop_find root_relative_resolve
        split: response.splits)

theorem get_release_url_from_website_first_match_witness:
  "get_release_url_from_website ascii_lower
     (Response [Preview None,
                Preview (Some (Caption (Some (H3 (Some (Link ''/v/talk-b'' ''Talk B'')))))),
                Preview (Some (Caption (Some (H3 (Some (Link ''/v/talk-a'' ''TALK A Extended'')))))),
                Preview (Some (Caption (Some (H3 (Some (Link ''/v/talk-a-2'' ''Talk A again''))))))])
     ''Talk A''
   = Some ''https://media.ccc.de/v/talk-a'' \<and>
   prefix ''/'' ''/v/talk-a'' \<and> \<not> prefix ''//'' ''/v/talk-a'' \<and>
   spec_resolve base_url ''/v/talk-a'' = ''https://media.ccc.de/v/talk-a''"
proof -
  have p: "prefix ''/'' ''/v/talk-a'' \<and> \<not> prefix ''//'' ''/v/talk-a''"
    by simp
  have f: "find (title_in_link_text ascii_lower ''Talk A'')
             (listed_links [Preview None,
                Preview (Some (Caption (Some (H3 (Some (Link ''/v/talk-b'' ''Talk B'')))))),
                Preview (Some (Caption (Some (H3 (Some (Link ''/v/talk-a'' ''TALK A Extended'')))))),
                Preview (Some (Caption (Some (H3 (Some (Link ''/v/talk-a-2'' ''Talk A again''))))))])
           = Some (Link ''/v/talk-a'' ''TALK A Extended'')"
    by (simp add: listed_links_def List.map_filter_simps title_in_link_text_def
          ascii_lower_def ascii_lower_char_def sublist_Cons_right)
  from get_release_url_from_website_first_match [of ascii_lower
     "(Response [Preview None,
                Preview (Some (Caption (Some (H3 (Some (Link ''/v/talk-b'' ''Talk B'')))))),
                Preview (Some (Caption (Some (H3 (Some (Link ''/v/talk-a'' ''TALK A Extended'')))))),
                Preview (Some (Caption (Some (H3 (Some (Link ''/v/talk-a-2'' ''Talk A again''))))))])"
     "''Talk A''" "''/v/talk-a''"] p f
  show ?thesis by (simp add: base_url_def)
qed

text \<open>
  C6, as stated, fails for a link target that is not relative to the root: the entry
  with link text \<open>Talk A Extended\<close> and the absolute target
  \<open>https://media.ccc.de/v/talk-a\<close> resolves to that target, and the code returns the
  origin glued in front of it.
\<close>

theorem get_release_url_from_website_absolute_href:
  "get_release_url_from_website ascii_lower
     (Response [Preview (Some (Caption (Some (H3 (Some
        (Link ''https://media.ccc.de/v/talk-a'' ''Talk A Extended''))))))])
     ''Talk A''
   = Some ''https://media.ccc.dehttps://media.ccc.de/v/talk-a'' \<and>
   spec_resolve base_url ''https://media.ccc.de/v/talk-a'' = ''https://media.ccc.de/v/talk-a'' \<and>
   get_release_url_from_website ascii_lower
     (Response [Preview (Some (Caption (Some (H3 (Some
        (Link ''https://media.ccc.de/v/talk-a'' ''Talk A Extended''))))))])
     ''Talk A''
   \<noteq> Some (spec_resolve base_url ''https://media.ccc.de/v/talk-a'')"
  by (simp add: get_release_url_from_website_def ascii_lower_def ascii_lower_char_def base_url_def
        spec_resolve_def)

text \<open>
  The lowering decides: on the same listing a comparison that keeps upper and lower case
  apart passes over \<open>TALK A Extended\<close> and returns the later entry.
\<close>

lemma get_release_url_from_website_needs_lower:
  "get_release_url_from_website (\<lambda>s. s)
     (Response [Preview None,
                Preview (Some (Caption (Some (H3 (Some (Link ''/v/talk-b'' ''Talk B'')))))),
                Preview (Some (Caption (Some (H3 (Some (Link ''/v/talk-a'' ''TALK A Extended'')))))),
                Preview (Some (Caption (Some (H3 (Some (Link ''/v/talk-a-2'' ''Talk A again''))))))])
     ''Talk A''
   = Some ''https://media.ccc.de/v/talk-a-2''"
  by (simp add: get_release_url_from_website_def base_url_def)

text \<open>
  The loops of the audio links: the language is the last known code among the class
  tokens, the codec goes by occurrence, and every link with a non-empty target adds one
  pair at the end of the result.
\<close>

lemma language_loop_filter:
  "language_loop language classes =
     (case filter (\<lambda>c. c \<in> set [''deu'', ''eng'', ''fra'']) classes of
        [] \<Rightarrow> language
      | c # cs \<Rightarrow> Some (last (c # cs)))"
  by (induction classes arbitrary: language) (auto split: list.splits)

lemma language_loop_known: "language_loop None classes = known_language classes"
  by (simp add: language_loop_filter known_language_def)

lemma audio_filetype_occurring:
  "audio_filetype language href =
     ''audio_'' @ format_language language @ ''_'' @ occurring_codec href"
  by (simp add: audio_filetype_def occurring_codec_def py_in_sublist)

lemma audio_loop_map:
  "audio_loop result btns =
     result @ map (\<lambda>(classes, href).
                (''audio_'' @ format_language (known_language classes) @ ''_'' @ occurring_codec href,
                 href))
              (audio_links btns)"
proof (induction btns arbitrary: result)
  case Nil
  then show ?case by (simp add: audio_links_def List.map_filter_simps)
next
  case (Cons a btns)
  show ?case
  proof (cases "audio_link a")
    case None
    then show ?thesis
      by (auto simp: Cons.IH audio_links_def List.map_filter_simps audio_link_def
               split: option.splits if_splits)
  next
    case (Some l)
    then show ?thesis
      by (auto simp: Cons.IH audio_links_def List.map_filter_simps audio_link_def
                     language_loop_known audio_filetype_occurring
               split: option.splits if_splits)
  qed
qed

text \<open>
  What \<open>audio_urls\<close> holds for a release page that could be fetched: one pair for
  every selected audio link with a non-empty target, in document order and with
  repetitions, the tag built from the last known language code among the class tokens
  (printed as \<open>None\<close> when there is none) and the codec by occurrence.
\<close>

lemma parse_release_page_audio_urls:
  "audio_urls (parse_release_page (Response soup)) =
     map (\<lambda>(classes, href).
            (''audio_'' @ format_language (known_language classes) @ ''_'' @ occurring_codec href,
             href))
         (audio_links (audio_btns soup))"
  by (simp add: parse_release_page_def audio_loop_map)

text \<open>
  The codec goes by occurrence, not by the file extension: a target that ends in
  \<open>.opus\<close> and contains \<open>.mp3\<close> before it is tagged mp3.
\<close>

lemma parse_release_page_codec_by_occurrence:
  "audio_urls (parse_release_page (Response
      \<lparr>persons_p = None, description_p = None,
       a_tags = [\<lparr>a_href = Some ''https://cdn.example.org/38c3/talk-a.mp3.opus'',
                  a_class = [''btn'', ''btn-default'', ''download'', ''audio'']\<rparr>]\<rparr>))
   = [(''audio_None_mp3'', ''https://cdn.example.org/38c3/talk-a.mp3.opus'')] \<and>
   spec_audio_filetype (known_language [''btn'', ''btn-default'', ''download'', ''audio''])
     ''https://cdn.example.org/38c3/talk-a.mp3.opus'' = ''audio_None_opus'' \<and>
   map fst (audio_urls (parse_release_page (Response
      \<lparr>persons_p = None, description_p = None,
       a_tags = [\<lparr>a_href = Some ''https://cdn.example.org/38c3/talk-a.mp3.opus'',
                  a_class = [''btn'', ''btn-default'', ''download'', ''audio'']\<rparr>]\<rparr>)))
   \<noteq> [spec_audio_filetype (known_language [''btn'', ''btn-default'', ''download'', ''audio''])
        ''https://cdn.example.org/38c3/talk-a.mp3.opus'']"
  by (simp add: parse_release_page_def audio_btns_def class_matches_def audio_filetype_def
        format_language_def spec_audio_filetype_def spec_codec_def endswith_def
        known_language_def)

text \<open>
  The selected audio links carry no language code: the selector string has to be the
  whole class attribute (class tokens have no space in them), and none of the known
  codes occurs in it.
\<close>

lemma in_join_sublist: "c \<in> set parts \<Longrightarrow> sublist c (join sep parts)"
proof (induction sep parts rule: join.induct)
  case (1 sep)
  then show ?case by simp
next
  case (2 sep x)
  then show ?case by simp
next
  case (3 sep x y ys)
  show ?case
  proof (cases "c = x")
    case True
    then show ?thesis by simp
  next
    case False
    with 3 have "sublist c (join sep (y # ys))" by simp
    then obtain ps ss where "join sep (y # ys) = ps @ c @ ss"
      by (auto simp: sublist_def)
    then have "join sep (x # y # ys) = (x @ sep @ ps) @ c @ ss"
      by simp
    then show ?thesis
      unfolding sublist_def by blast
  qed
qed

lemma audio_btns_language_None:
  assumes "a \<in> set (audio_btns soup)"
    and "\<forall>c \<in> set (a_class a). CHR '' '' \<notin> set c"
  shows "known_language (a_class a) = None"
proof -
  from assms(1) have m: "class_matches ''btn btn-default download audio'' (a_class a)"
    by (simp add: audio_btns_def)
  have "''btn btn-default download audio'' \<notin> set (a_class a)"
    using assms(2) by auto
  with m have j: "join '' '' (a_class a) = ''btn btn-default download audio''"
    by (simp add: class_matches_def)
  have "c \<notin> set [''deu'', ''eng'', ''fra'']" if "c \<in> set (a_class a)" for c
  proof
    assume k: "c \<in> set [''deu'', ''eng'', ''fra'']"
    from that have "sublist c (join '' '' (a_class a))"
      by (rule in_join_sublist)
    with j have "sublist c ''btn btn-default download audio''"
      by simp
    with k show False
      by (auto simp: sublist_Cons_right)
  qed
  then have "filter (\<lambda>c. c \<in> set [''deu'', ''eng'', ''fra'']) (a_class a) = []"
    by (simp add: filter_empty_conv)
  then show ?thesis
    by (simp add: known_language_def)
qed

text \<open>
  C7. An audio-download link whose class tokens include \<open>deu\<close> and whose target ends
  in \<open>.opus\<close>: by the claim, and by the docstring of \<open>parse_release_page\<close>, it is
  collected with the tag \<open>audio_deu_opus\<close>. The code collects nothing for it, since
  \<open>find_all\<close> with \<open>class_='btn btn-default download audio'\<close> selects only links whose
  whole class attribute is that string.
\<close>

theorem parse_release_page_language_link_not_collected:
  "audio_urls (parse_release_page (Response
      \<lparr>persons_p = None, description_p = None,
       a_tags = [\<lparr>a_href = Some ''https://cdn.example.org/38c3/talk-a-deu.opus'',
                  a_class = [''btn'', ''btn-default'', ''download'', ''audio'', ''deu'']\<rparr>]\<rparr>)) = [] \<and>
   spec_audio_filetype (known_language [''btn'', ''btn-default'', ''download'', ''audio'', ''deu''])
     ''https://cdn.example.org/38c3/talk-a-deu.opus'' = ''audio_deu_opus''"
  by (simp add: parse_release_page_def audio_btns_def class_matches_def spec_audio_filetype_def
        spec_codec_def endswith_def known_language_def format_language_def)

text \<open>
  C8, as amended. When both scraped values are empty, the UPDATE is not run and the
  catalog is as it was. When at least one is non-empty, the UPDATE is run and stores
  both scraped values in the row of the talk, the empty one included.
\<close>

theorem enrichment_gate:
  "(authors info = [] \<and> description info = [] \<longrightarrow>
      main_update_authors_description conn talk_id info = conn) \<and>
   (talks conn talk_id = Some row \<and> (authors info \<noteq> [] \<or> description info \<noteq> []) \<longrightarrow>
      talks (main_update_authors_description conn talk_id info) talk_id =
        Some (row\<lparr>r_authors := PStr (authors info), r_description := PStr (description info)\<rparr>))"
  by (simp add: main_update_authors_description_def)

theorem enrichment_gate_witness:
  "authors (parse_release_page RequestException) = [] \<and>
   description (parse_release_page RequestException) = [] \<and>
   main_update_authors_description
     \<lparr>talks = [1 \<mapsto> \<lparr>r_guid = PNone, r_title = PStr ''Talk A'', r_room = PNone,
                 r_status = PStr ''released'', r_start = PNone, r_duration = PNone,
                 r_release_url = PStr ''https://media.ccc.de/v/talk-a'',
                 r_authors = PStr ''Alice, Bob'', r_description = PStr ''Old text'',
                 r_last_mtime = PInt 5\<rparr>], files = []\<rparr>
     1 (parse_release_page RequestException)
   = \<lparr>talks = [1 \<mapsto> \<lparr>r_guid = PNone, r_title = PStr ''Talk A'', r_room = PNone,
                 r_status = PStr ''released'', r_start = PNone, r_duration = PNone,
                 r_release_url = PStr ''https://media.ccc.de/v/talk-a'',
                 r_authors = PStr ''Alice, Bob'', r_description = PStr ''Old text'',
                 r_last_mtime = PInt 5\<rparr>], files = []\<rparr> \<and>
   talks (main_update_authors_description
     \<lparr>talks = [1 \<mapsto> \<lparr>r_guid = PNone, r_title = PStr ''Talk A'', r_room = PNone,
                 r_status = PStr ''released'', r_start = PNone, r_duration = PNone,
                 r_release_url = PStr ''https://media.ccc.de/v/talk-a'',
                 r_authors = PNone, r_description = PNone,
                 r_last_mtime = PInt 5\<rparr>], files = []\<rparr>
     1 (parse_release_page (Response
          \<lparr>persons_p = Some [''Alice'', ''Bob''], description_p = Some ''New text'',
           a_tags = []\<rparr>))) 1
   = Some \<lparr>r_guid = PNone, r_title = PStr ''Talk A'', r_room = PNone,
                 r_status = PStr ''released'', r_start = PNone, r_duration = PNone,
                 r_release_url = PStr ''https://media.ccc.de/v/talk-a'',
                 r_authors = PStr ''Alice, Bob'', r_description = PStr ''New text'',
                 r_last_mtime = PInt 5\<rparr>"
proof -
  let ?row = "\<lparr>r_guid = PNone, r_title = PStr ''Talk A'', r_room = PNone,
                 r_status = PStr ''released'', r_start = PNone, r_duration = PNone,
                 r_release_url = PStr ''https://media.ccc.de/v/talk-a'',
                 r_authors = PNone, r_description = PNone,
                 r_last_mtime = PInt 5\<rparr>"
  let ?info = "parse_release_page (Response
          \<lparr>persons_p = Some [''Alice'', ''Bob''], description_p = Some ''New text'',
           a_tags = []\<rparr>)"
  have e: "authors (parse_release_page RequestException) = [] \<and>
           description (parse_release_page RequestException) = []"
    by (simp add: parse_release_page_def)
  have f: "talks \<lparr>talks = [1 \<mapsto> ?row], files = []\<rparr> 1 = Some ?row \<and>
           (authors ?info \<noteq> [] \<or> description ?info \<noteq> [])"
    by (simp add: parse_release_page_def)
  have i: "authors ?info = ''Alice, Bob'' \<and> description ?info = ''New text''"
    by (simp add: parse_release_page_def)
  from enrichment_gate [of "parse_release_page RequestException"
      "\<lparr>talks = [1 \<mapsto> \<lparr>r_guid = PNone, r_title = PStr ''Talk A'', r_room = PNone,
                 r_status = PStr ''released'', r_start = PNone, r_duration = PNone,
                 r_release_url = PStr ''https://media.ccc.de/v/talk-a'',
                 r_authors = PStr ''Alice, Bob'', r_description = PStr ''Old text'',
                 r_last_mtime = PInt 5\<rparr>], files = []\<rparr>" 1 ?row] e
  have a: "main_update_authors_description
     \<lparr>talks = [1 \<mapsto> \<lparr>r_guid = PNone, r_title = PStr ''Talk A'', r_room = PNone,
                 r_status = PStr ''released'', r_start = PNone, r_duration = PNone,
                 r_release_url = PStr ''https://media.ccc.de/v/talk-a'',
                 r_authors = PStr ''Alice, Bob'', r_description = PStr ''Old text'',
                 r_last_mtime = PInt 5\<rparr>], files = []\<rparr>
     1 (parse_release_page RequestException)
   = \<lparr>talks = [1 \<mapsto> \<lparr>r_guid = PNone, r_title = PStr ''Talk A'', r_room = PNone,
                 r_status = PStr ''released'', r_start = PNone, r_duration = PNone,
                 r_release_url = PStr ''https://media.ccc.de/v/talk-a'',
                 r_authors = PStr ''Alice, Bob'', r_description = PStr ''Old text'',
                 r_last_mtime = PInt 5\<rparr>], files = []\<rparr>"
    by blast
  from enrichment_gate [of ?info "\<lparr>talks = [1 \<mapsto> ?row], files = []\<rparr>" 1 ?row] f
  have b: "talks (main_update_authors_description \<lparr>talks = [1 \<mapsto> ?row], files = []\<rparr> 1 ?info) 1
            = Some (?row\<lparr>r_authors := PStr (authors ?info), r_description := PStr (description ?info)\<rparr>)"
    by blast
  from e a b i show ?thesis by simp
qed

text \<open>
  C8, as stated, fails when exactly one scraped value is empty: the row holds the
  authors \<open>Alice, Bob\<close>, a later scrape finds a description and no persons region, and
  the UPDATE stores the empty string as authors.
\<close>

theorem enrichment_clobbers_authors:
  "map_option r_authors (talks
     \<lparr>talks = [1 \<mapsto> \<lparr>r_guid = PNone, r_title = PStr ''Talk A'', r_room = PNone,
                 r_status = PStr ''released'', r_start = PNone, r_duration = PNone,
                 r_release_url = PStr ''https://media.ccc.de/v/talk-a'',
                 r_authors = PStr ''Alice, Bob'', r_description = PStr ''Old text'',
                 r_last_mtime = PInt 5\<rparr>], files = []\<rparr> 1) = Some (PStr ''Alice, Bob'') \<and>
   authors (parse_release_page (Response
      \<lparr>persons_p = None, description_p = Some ''New text'', a_tags = []\<rparr>)) = [] \<and>
   map_option r_authors (talks (main_update_authors_description
     \<lparr>talks = [1 \<mapsto> \<lparr>r_guid = PNone, r_title = PStr ''Talk A'', r_room = PNone,
                 r_status = PStr ''released'', r_start = PNone, r_duration = PNone,
                 r_release_url = PStr ''https://media.ccc.de/v/talk-a'',
                 r_authors = PStr ''Alice, Bob'', r_description = PStr ''Old text'',
                 r_last_mtime = PInt 5\<rparr>], files = []\<rparr>
     1 (parse_release_page (Response
      \<lparr>persons_p = None, description_p = Some ''New text'', a_tags = []\<rparr>))) 1)
   = Some (PStr [])"
  by (simp add: main_update_authors_description_def parse_release_page_def)

end
